theory Spec2Isabelle
  imports Complex_Main "HOL-Library.Char_ord" "HOL-Library.List_Lexorder"
    "HOL-Library.AList" "HOL-Library.Sublist"
begin

section \<open>The JavaScript values the dashboard reads\<close>

text \<open>
  The component \<^verbatim>\<open>Dashboard\<close> (src/components/Dashboard.tsx, and its near copy
  src/unnamed/part_000) reads a dataset of rows, keeps a filter state, and derives the
  filtered rows, five KPIs and the chart series from them. The embedding below follows
  that code function by function.

  Numbers are idealised: a JavaScript number is either an exact rational or \<open>NaN\<close>.
  IEEE-754 rounding, overflow to the infinities and the sign of zero are outside the model.
  \<open>NaN\<close> is kept because the code tests for it (\<^verbatim>\<open>isNaN\<close>, \<^verbatim>\<open>|| 0\<close>).
  Strings are lists of 8-bit characters, read as the code points U+0000 to U+00FF.
  A cell is a string or a number. An object is the finite collection of its own
  properties: a row is a map from column name to cell, where an absent key reads as
  \<^verbatim>\<open>undefined\<close> (\<open>None\<close>). Properties inherited from \<^verbatim>\<open>Object.prototype\<close> are not
  modelled, so a key such as \<^verbatim>\<open>constructor\<close> is read like any other key.
\<close>

datatype jsnum = NaN | Fin rat

datatype jsval = Str string | Num jsnum

text \<open>
  Modelled from the spec: the types \<^verbatim>\<open>DataRow\<close> and \<^verbatim>\<open>DashboardData\<close>, which the component
  imports from \<^verbatim>\<open>../types\<close>, a file that is not among the sources. The specification's
  data model gives a record as a mapping from header to a string, a number or nothing, and
  a dataset as the ordered headers, the rows, and the inferred type (\<^verbatim>\<open>string\<close> or
  \<^verbatim>\<open>number\<close>) of each header.
\<close>

type_synonym DataRow = "string \<rightharpoonup> jsval"

record DashboardData =
  headers :: "string list"
  rows :: "DataRow list"
  types :: "string \<rightharpoonup> string"

subsection \<open>Strings\<close>

text \<open>\<^verbatim>\<open>toLowerCase\<close> on the letters A to Z and on the capital letters of Latin-1.\<close>

definition toLowerCase_char :: "char \<Rightarrow> char" where
  "toLowerCase_char c =
     (let n = (of_char c :: int) in
      if (65 \<le> n \<and> n \<le> 90) \<or> (192 \<le> n \<and> n \<le> 222 \<and> n \<noteq> 215)
      then char_of (n + 32) else c)"

definition toLowerCase :: "string \<Rightarrow> string" where
  "toLowerCase s = map toLowerCase_char s"

text \<open>\<^verbatim>\<open>s.includes(t)\<close>: \<open>t\<close> occurs in \<open>s\<close> as a contiguous run.\<close>

fun str_includes :: "string \<Rightarrow> string \<Rightarrow> bool" where
  "str_includes [] t = (t = [])"
| "str_includes (c # s) t = (prefix t (c # s) \<or> str_includes s t)"

subsection \<open>Numeric coercion: \<^verbatim>\<open>Number(x)\<close>\<close>

definition isWhiteSpace :: "char \<Rightarrow> bool" where
  "isWhiteSpace c = (of_char c \<in> {9, 10, 11, 12, 13, 32, 160 :: int})"

definition trim_ws :: "string \<Rightarrow> string" where
  "trim_ws s = rev (dropWhile isWhiteSpace (rev (dropWhile isWhiteSpace s)))"

text \<open>The value of a digit character in bases up to 16; 16 for any other character.\<close>

definition digit_val :: "char \<Rightarrow> int" where
  "digit_val c =
     (let n = (of_char c :: int) in
      if 48 \<le> n \<and> n \<le> 57 then n - 48
      else if 97 \<le> n \<and> n \<le> 102 then n - 87
      else if 65 \<le> n \<and> n \<le> 70 then n - 55
      else 16)"

definition isDigit :: "char \<Rightarrow> bool" where
  "isDigit c = (digit_val c < 10)"

definition digits_value :: "int \<Rightarrow> string \<Rightarrow> int" where
  "digits_value b s = foldl (\<lambda>a c. a * b + digit_val c) 0 s"

text \<open>\<^verbatim>\<open>0x\<close>, \<^verbatim>\<open>0o\<close> and \<^verbatim>\<open>0b\<close> literals: at least one digit of the base, nothing else.\<close>

definition radix_literal :: "int \<Rightarrow> string \<Rightarrow> jsnum" where
  "radix_literal b s =
     (if s \<noteq> [] \<and> list_all (\<lambda>c. digit_val c < b) s
      then Fin (of_int (digits_value b s)) else NaN)"

text \<open>The exponent part after the mantissa: absent, or \<^verbatim>\<open>e\<close>/\<^verbatim>\<open>E\<close>, an optional sign and digits.\<close>

definition exponent_part :: "string \<Rightarrow> int option" where
  "exponent_part s =
     (case s of
        [] \<Rightarrow> Some 0
      | c # r \<Rightarrow>
          if c = CHR ''e'' \<or> c = CHR ''E'' then
            (let (neg, ds) =
               (case r of
                  [] \<Rightarrow> (False, [])
                | d # r' \<Rightarrow>
                    if d = CHR ''+'' then (False, r')
                    else if d = CHR ''-'' then (True, r') else (False, r))
             in if ds \<noteq> [] \<and> list_all isDigit ds
                then Some (if neg then - digits_value 10 ds else digits_value 10 ds)
                else None)
          else None)"

text \<open>
  An unsigned decimal literal: digits, an optional fraction, an optional exponent, with a
  digit before or after the point. The literal \<^verbatim>\<open>Infinity\<close> denotes an IEEE infinity, which
  the idealised numbers do not have; it is read like any other non-numeral.
\<close>

definition unsigned_decimal :: "string \<Rightarrow> jsnum" where
  "unsigned_decimal s =
     (let ip = takeWhile isDigit s;
          r1 = dropWhile isDigit s;
          dot = (r1 \<noteq> [] \<and> hd r1 = CHR ''.'');
          fp = (if dot then takeWhile isDigit (tl r1) else []);
          r2 = (if dot then dropWhile isDigit (tl r1) else r1)
      in if ip = [] \<and> fp = [] then NaN
         else case exponent_part r2 of
                None \<Rightarrow> NaN
              | Some e \<Rightarrow>
                  (let m = (of_int (digits_value 10 (ip @ fp)) :: rat) / 10 ^ length fp
                   in Fin (if 0 \<le> e then m * 10 ^ nat e else m / 10 ^ nat (- e))))"

definition neg_num :: "jsnum \<Rightarrow> jsnum" where
  "neg_num n = (case n of NaN \<Rightarrow> NaN | Fin r \<Rightarrow> Fin (- r))"

text \<open>\<^verbatim>\<open>Number(s)\<close> for a string: blank reads as 0, a malformed numeral as \<open>NaN\<close>.\<close>

definition StringToNumber :: "string \<Rightarrow> jsnum" where
  "StringToNumber s =
     (let t = trim_ws s in
      if t = [] then Fin 0
      else if take 2 t = ''0x'' \<or> take 2 t = ''0X'' then radix_literal 16 (drop 2 t)
      else if take 2 t = ''0o'' \<or> take 2 t = ''0O'' then radix_literal 8 (drop 2 t)
      else if take 2 t = ''0b'' \<or> take 2 t = ''0B'' then radix_literal 2 (drop 2 t)
      else if hd t = CHR ''+'' then unsigned_decimal (tl t)
      else if hd t = CHR ''-'' then neg_num (unsigned_decimal (tl t))
      else unsigned_decimal t)"

text \<open>\<^verbatim>\<open>Number(row[col])\<close>: an absent cell is \<^verbatim>\<open>undefined\<close>, which coerces to \<open>NaN\<close>.\<close>

definition js_Number :: "jsval option \<Rightarrow> jsnum" where
  "js_Number v =
     (case v of None \<Rightarrow> NaN | Some (Str s) \<Rightarrow> StringToNumber s | Some (Num n) \<Rightarrow> n)"

definition isNaN :: "jsnum \<Rightarrow> bool" where
  "isNaN n = (n = NaN)"

text \<open>\<^verbatim>\<open>n || 0\<close> on a number: \<open>NaN\<close> and 0 are falsy, so the result is never \<open>NaN\<close>.\<close>

definition or_zero :: "jsnum \<Rightarrow> rat" where
  "or_zero n = (case n of NaN \<Rightarrow> 0 | Fin r \<Rightarrow> r)"

subsection \<open>String coercion: \<^verbatim>\<open>String(x)\<close>\<close>

text \<open>
  How a finite number prints (\<^verbatim>\<open>Number::toString\<close>) depends on its binary representation;
  the functions below take it as the parameter \<open>nts\<close>, and every result holds for each choice.
\<close>

definition js_String :: "(rat \<Rightarrow> string) \<Rightarrow> jsval option \<Rightarrow> string" where
  "js_String nts v =
     (case v of
        None \<Rightarrow> ''undefined''
      | Some (Str s) \<Rightarrow> s
      | Some (Num NaN) \<Rightarrow> ''NaN''
      | Some (Num (Fin r)) \<Rightarrow> nts r)"

section \<open>Column classifier\<close>

text \<open>
  \<^verbatim>\<open>data.headers.find(h => keys.some(k => h.toLowerCase() === k.toLowerCase()
     || h.toLowerCase().includes(k.toLowerCase())))\<close>
\<close>

definition header_matches :: "string list \<Rightarrow> string \<Rightarrow> bool" where
  "header_matches keys h =
     list_ex (\<lambda>k. toLowerCase h = toLowerCase k
                \<or> str_includes (toLowerCase h) (toLowerCase k)) keys"

definition findHeader :: "DashboardData \<Rightarrow> string list \<Rightarrow> string option" where
  "findHeader data keys = List.find (header_matches keys) (headers data)"

definition colFaturamento :: "DashboardData \<Rightarrow> string option" where
  "colFaturamento data = findHeader data [''faturamento'', ''receita'', ''faturado'']"

definition colGastos :: "DashboardData \<Rightarrow> string option" where
  "colGastos data = findHeader data [''gastos'', ''gasto'', ''custo'', ''investimento'', ''spend'']"

definition colRoas :: "DashboardData \<Rightarrow> string option" where
  "colRoas data = findHeader data [''roas'']"

section \<open>Objects as property lists\<close>

text \<open>
  \<^verbatim>\<open>filters\<close>, \<^verbatim>\<open>aggregated\<close> and \<^verbatim>\<open>map\<close> are plain objects used as dictionaries. An object
  is modelled by the list of its own properties in insertion order: \<open>map_of\<close> reads a
  property, \<open>AList.update\<close> assigns one (in place when the key exists, at the end
  otherwise). \<^verbatim>\<open>Object.entries\<close> lists the keys that are array indices first, in ascending
  numeric order, and the other keys after them in insertion order.
\<close>

definition isArrayIndex :: "string \<Rightarrow> bool" where
  "isArrayIndex k =
     (k \<noteq> [] \<and> list_all isDigit k \<and> (if hd k = CHR ''0'' then k = ''0'' else True)
      \<and> digits_value 10 k \<le> 4294967294)"

definition Object_entries :: "(string \<times> 'a) list \<Rightarrow> (string \<times> 'a) list" where
  "Object_entries obj =
     sort_key (\<lambda>p. digits_value 10 (fst p)) (filter (\<lambda>p. isArrayIndex (fst p)) obj)
     @ filter (\<lambda>p. \<not> isArrayIndex (fst p)) obj"

section \<open>Filter state\<close>

type_synonym Filters = "(string \<times> string list) list"

record DashState =
  filters :: Filters
  searchTerm :: string

text \<open>
  \<^verbatim>\<open>const current = prev[column] || [];
  const updated = current.includes(value) ? current.filter(v => v !== value) : [...current, value];
  return { ...prev, [column]: updated.length > 0 ? updated : [] };\<close>
\<close>

definition selected :: "Filters \<Rightarrow> string \<Rightarrow> string list" where
  "selected prev column = (case map_of prev column of None \<Rightarrow> [] | Some vs \<Rightarrow> vs)"

definition toggled :: "string list \<Rightarrow> string \<Rightarrow> string list" where
  "toggled current val =
     (if val \<in> set current then filter (\<lambda>v. v \<noteq> val) current else current @ [val])"

definition toggleFilter :: "string \<Rightarrow> string \<Rightarrow> DashState \<Rightarrow> DashState" where
  "toggleFilter column val st =
     (let prev = filters st;
          current = selected prev column;
          updated = toggled current val
      in st\<lparr>filters := AList.update column (if length updated > 0 then updated else []) prev\<rparr>)"

definition clearAllFilters :: "DashState \<Rightarrow> DashState" where
  "clearAllFilters st = st\<lparr>filters := [], searchTerm := []\<rparr>"

section \<open>Filter panel values\<close>

definition filterableColumns :: "DashboardData \<Rightarrow> string list" where
  "filterableColumns data =
     filter (\<lambda>h. list_ex (\<lambda>t. str_includes (toLowerCase h) t)
                   [''data'', ''nome do ad'', ''bm-ca-pf (teste)'', ''status'', ''campanha'',
                    ''ad set''])
       (headers data)"

text \<open>\<^verbatim>\<open>Array.from(new Set(xs))\<close>: the first occurrence of each element, in order.\<close>

definition Set_from :: "'a list \<Rightarrow> 'a list" where
  "Set_from xs = rev (remdups (rev xs))"

text \<open>\<^verbatim>\<open>row[col] ?? ''\<close>\<close>

definition or_blank :: "jsval option \<Rightarrow> jsval option" where
  "or_blank v = (case v of None \<Rightarrow> Some (Str []) | Some x \<Rightarrow> Some x)"

text \<open>
  \<^verbatim>\<open>Array.from(new Set(data.rows.map(r => String(r[col] ?? '')).filter(v => v !== ''))).sort()\<close>
\<close>

definition uniqueValues :: "(rat \<Rightarrow> string) \<Rightarrow> DashboardData \<Rightarrow> string \<Rightarrow> string list" where
  "uniqueValues nts data col =
     sort (Set_from (filter (\<lambda>v. v \<noteq> [])
                       (map (\<lambda>r. js_String nts (or_blank (r col))) (rows data))))"

definition uniqueValuesMap :: "(rat \<Rightarrow> string) \<Rightarrow> DashboardData \<Rightarrow> (string \<times> string list) list" where
  "uniqueValuesMap nts data =
     foldl (\<lambda>m col. AList.update col (uniqueValues nts data col) m) [] (filterableColumns data)"

section \<open>Row filter\<close>

definition matchesFilters :: "(rat \<Rightarrow> string) \<Rightarrow> Filters \<Rightarrow> DataRow \<Rightarrow> bool" where
  "matchesFilters nts fs row =
     list_all (\<lambda>(col, vals). if length vals = 0 then True
                              else js_String nts (row col) \<in> set vals)
       (Object_entries fs)"

definition matchesSearch :: "(rat \<Rightarrow> string) \<Rightarrow> string list \<Rightarrow> string \<Rightarrow> DataRow \<Rightarrow> bool" where
  "matchesSearch nts hs term row =
     (term = [] \<or> list_ex (\<lambda>h. str_includes (toLowerCase (js_String nts (row h)))
                                   (toLowerCase term)) hs)"

definition filteredRows :: "(rat \<Rightarrow> string) \<Rightarrow> DashboardData \<Rightarrow> DashState \<Rightarrow> DataRow list" where
  "filteredRows nts data st =
     filter (\<lambda>row. matchesFilters nts (filters st) row
                  \<and> matchesSearch nts (headers data) (searchTerm st) row)
       (rows data)"

section \<open>KPI aggregator\<close>

record Stats =
  fat :: rat
  gas :: rat
  imp :: rat
  luc :: rat
  roas :: rat

text \<open>\<^verbatim>\<open>col || ''\<close> on an optional header.\<close>

definition or_empty :: "string option \<Rightarrow> string" where
  "or_empty c = (case c of None \<Rightarrow> [] | Some h \<Rightarrow> h)"

text \<open>
  One pass of the \<^verbatim>\<open>forEach\<close> body over the accumulators
  \<open>(fat, gas, roasSum, roasCount)\<close>. The case distinction on the coerced ROAS cell is the
  test \<^verbatim>\<open>!isNaN(r)\<close>; the test \<^verbatim>\<open>typeof r === 'number'\<close> of the second copy always holds.
\<close>

fun stats_row ::
  "string option \<Rightarrow> string option \<Rightarrow> string option \<Rightarrow> rat \<times> rat \<times> rat \<times> nat \<Rightarrow> DataRow
     \<Rightarrow> rat \<times> rat \<times> rat \<times> nat" where
  "stats_row colF colG colR (fatSum, gasSum, roasSum, roasCount) row =
     (let f = or_zero (js_Number (row (or_empty colF)));
          g = or_zero (js_Number (row (or_empty colG)));
          fatSum' = fatSum + f;
          gasSum' = gasSum + g
      in case js_Number (row (or_empty colR)) of
           NaN \<Rightarrow> (fatSum', gasSum', roasSum, roasCount)
         | Fin r \<Rightarrow>
             if row (or_empty colR) \<noteq> Some (Str [])
             then (fatSum', gasSum', roasSum + r, roasCount + 1)
             else (fatSum', gasSum', roasSum, roasCount))"

definition stats ::
  "DataRow list \<Rightarrow> string option \<Rightarrow> string option \<Rightarrow> string option \<Rightarrow> Stats" where
  "stats frows colF colG colR =
     (case foldl (stats_row colF colG colR) (0, 0, 0, 0) frows of
        (fatSum, gasSum, roasSum, roasCount) \<Rightarrow>
          (let impV = fatSum * 0.06;
               lucV = fatSum - gasSum - impV;
               avgRoas = (if roasCount > 0 then roasSum / of_nat roasCount
                          else if gasSum > 0 then fatSum / gasSum else 0)
           in \<lparr>fat = fatSum, gas = gasSum, imp = impV, luc = lucV, roas = avgRoas\<rparr>))"

text \<open>The KPIs of a dataset under a filter state, as the component wires them.\<close>

definition kpis :: "(rat \<Rightarrow> string) \<Rightarrow> DashboardData \<Rightarrow> DashState \<Rightarrow> Stats" where
  "kpis nts data st =
     stats (filteredRows nts data st) (colFaturamento data) (colGastos data) (colRoas data)"

section \<open>Chart aggregator\<close>






section \<open>The claims in the specification's words\<close>

text \<open>
  A header qualifies for a keyword list when its lowercased text equals, or contains, the
  lowercased text of some keyword.
\<close>

definition header_qualifies :: "string list \<Rightarrow> string \<Rightarrow> bool" where
  "header_qualifies keys h =
     (\<exists>k \<in> set keys. toLowerCase h = toLowerCase k
        \<or> (\<exists>u v. toLowerCase h = u @ toLowerCase k @ v))"

text \<open>Two headers of which the first matches a later keyword of the spend role.\<close>

definition precedence_data :: DashboardData where
  "precedence_data =
     \<lparr>headers = [''Data'', ''Custo Total'', ''Gastos''], rows = [],
      types = [''Data'' \<mapsto> ''string'', ''Custo Total'' \<mapsto> ''number'',
               ''Gastos'' \<mapsto> ''number'']\<rparr>"


text \<open>The dataset of the specification's worked example.\<close>

definition example_row1 :: DataRow where
  "example_row1 =
     [''Data'' \<mapsto> Str ''01/01'', ''Nome do Ad'' \<mapsto> Str ''A'',
      ''Faturamento'' \<mapsto> Num (Fin 1000), ''Gastos'' \<mapsto> Num (Fin 200),
      ''ROAS'' \<mapsto> Num (Fin 5)]"

definition example_row2 :: DataRow where
  "example_row2 =
     [''Data'' \<mapsto> Str ''02/01'', ''Nome do Ad'' \<mapsto> Str ''B'',
      ''Faturamento'' \<mapsto> Num (Fin 500), ''Gastos'' \<mapsto> Num (Fin 100),
      ''ROAS'' \<mapsto> Num (Fin 5)]"

definition example_data :: DashboardData where
  "example_data =
     \<lparr>headers = [''Data'', ''Nome do Ad'', ''Faturamento'', ''Gastos'', ''ROAS''],
      rows = [example_row1, example_row2],
      types = [''Data'' \<mapsto> ''string'', ''Nome do Ad'' \<mapsto> ''string'',
               ''Faturamento'' \<mapsto> ''number'', ''Gastos'' \<mapsto> ''number'',
               ''ROAS'' \<mapsto> ''number'']\<rparr>"

definition initial_state :: DashState where
  "initial_state = \<lparr>filters = [], searchTerm = []\<rparr>"



text \<open>
  The ROAS cell of a row enters the average when the field is present (neither absent nor
  the empty string) and numeric (its coercion is a number).
\<close>

definition roas_counts :: "jsval option \<Rightarrow> bool" where
  "roas_counts v = (v \<noteq> None \<and> v \<noteq> Some (Str []) \<and> \<not> isNaN (js_Number v))"

definition roas_values :: "string \<Rightarrow> DataRow list \<Rightarrow> rat list" where
  "roas_values col frows =
     map (\<lambda>r. or_zero (js_Number (r col))) (filter (\<lambda>r. roas_counts (r col)) frows)"





text \<open>A dataset whose ROAS column is blank, and one without a ROAS column.\<close>

definition blank_roas_row :: DataRow where
  "blank_roas_row =
     [''Faturamento'' \<mapsto> Num (Fin 1000), ''Gastos'' \<mapsto> Num (Fin 200), ''ROAS'' \<mapsto> Str []]"





text \<open>
  The value list as the specification words it: the column's stringified row values,
  deduplicated and sorted.
\<close>

definition uniqueValues_claim :: "(rat \<Rightarrow> string) \<Rightarrow> DashboardData \<Rightarrow> string \<Rightarrow> string list" where
  "uniqueValues_claim nts data col =
     sort (remdups (map (\<lambda>r. js_String nts (r col)) (rows data)))"

text \<open>The stringified values of the rows that have the field.\<close>

definition present_strings :: "(rat \<Rightarrow> string) \<Rightarrow> DashboardData \<Rightarrow> string \<Rightarrow> string set" where
  "present_strings nts data col =
     {s. \<exists>r \<in> set (rows data). \<exists>v. r col = Some v \<and> s = js_String nts (Some v)}"

text \<open>A status column with a repeated value, a blank cell and a row without the field.\<close>

definition status_data :: DashboardData where
  "status_data =
     \<lparr>headers = [''Status''],
      rows = [[''Status'' \<mapsto> Str ''pausado''], [''Status'' \<mapsto> Str []],
              [''Status'' \<mapsto> Str ''ativo''], [''Status'' \<mapsto> Str ''pausado''], Map.empty],
      types = [''Status'' \<mapsto> ''string'']\<rparr>"


section \<open>Results\<close>

subsection \<open>The model on sample inputs\<close>

lemma StringToNumber_examples:
  "StringToNumber [] = Fin 0"
  "StringToNumber ''  '' = Fin 0"
  "StringToNumber '' 12.50 '' = Fin (25 / 2)"
  "StringToNumber ''-3.5e2'' = Fin (- 350)"
  "StringToNumber ''.5'' = Fin (1 / 2)"
  "StringToNumber ''0x1F'' = Fin 31"
  "StringToNumber ''1,5'' = NaN"
  "StringToNumber ''R$ 10'' = NaN"
  "StringToNumber ''5e'' = NaN"
  by code_simp+

text \<open>
  The specification's second example: with the filter on ad \<^verbatim>\<open>A\<close> toggled on, only the
  first row remains and the KPIs are 1000, 200, 60 and 740.
\<close>

lemma example_kpis_filtered:
  "kpis nts example_data (toggleFilter ''Nome do Ad'' ''A'' initial_state)
     = \<lparr>fat = 1000, gas = 200, imp = 60, luc = 740, roas = 5\<rparr>"
  by code_simp

subsection \<open>Strings\<close>

lemma str_includes_iff: "str_includes s t \<longleftrightarrow> (\<exists>u v. s = u @ t @ v)"
proof (induction s)
  case Nil
  then show ?case by auto
next
  case (Cons c s)
  show ?case
  proof
    assume "str_includes (c # s) t"
    then consider "prefix t (c # s)" | "str_includes s t" by auto
    then show "\<exists>u v. c # s = u @ t @ v"
    proof cases
      case 1
      then obtain v where "c # s = t @ v" by (auto simp: prefix_def)
      then have "c # s = [] @ t @ v" by simp
      then show ?thesis by blast
    next
      case 2
      with Cons.IH obtain u v where "s = u @ t @ v" by blast
      then have "c # s = (c # u) @ t @ v" by simp
      then show ?thesis by blast
    qed
  next
    assume "\<exists>u v. c # s = u @ t @ v"
    then obtain u v where uv: "c # s = u @ t @ v" by blast
    show "str_includes (c # s) t"
    proof (cases u)
      case Nil
      with uv have "prefix t (c # s)" by (simp add: prefix_def)
      then show ?thesis by simp
    next
      case (Cons a u')
      with uv have "s = u' @ t @ v" by simp
      with Cons.IH have "str_includes s t" by blast
      then show ?thesis by simp
    qed
  qed
qed


subsection \<open>Column classifier\<close>

lemma header_matches_iff: "header_matches keys h \<longleftrightarrow> header_qualifies keys h"
  by (auto simp: header_matches_def header_qualifies_def list_ex_iff str_includes_iff)

text \<open>
  C5. The classifier returns the first header, in header order, that qualifies for the
  keyword list: the header at some position \<open>i\<close> qualifies and no header before it does.
  It returns no header exactly when none qualifies. Which keyword a header matches plays
  no part.
\<close>

theorem findHeader_first_qualifying:
  "(case findHeader data keys of
      None \<Rightarrow> \<forall>h \<in> set (headers data). \<not> header_qualifies keys h
    | Some h \<Rightarrow>
        \<exists>i < length (headers data).
          headers data ! i = h \<and> header_qualifies keys h
          \<and> (\<forall>j < i. \<not> header_qualifies keys (headers data ! j)))"
proof (cases "findHeader data keys")
  case None
  then have "\<forall>h \<in> set (headers data). \<not> header_qualifies keys h"
    by (simp add: findHeader_def find_None_iff header_matches_iff)
  with None show ?thesis by simp
next
  case (Some h)
  then have "\<exists>i < length (headers data).
          headers data ! i = h \<and> header_qualifies keys h
          \<and> (\<forall>j < i. \<not> header_qualifies keys (headers data ! j))"
    by (auto simp: findHeader_def find_Some_iff header_matches_iff)
  with Some show ?thesis by simp
qed

theorem findHeader_first_qualifying_witness:
  "colGastos precedence_data = Some ''Custo Total''
   \<and> (\<exists>i < length (headers precedence_data).
          headers precedence_data ! i = ''Custo Total''
          \<and> header_qualifies [''gastos'', ''gasto'', ''custo'', ''investimento'', ''spend'']
               ''Custo Total''
          \<and> (\<forall>j < i. \<not> header_qualifies
                          [''gastos'', ''gasto'', ''custo'', ''investimento'', ''spend'']
                          (headers precedence_data ! j)))"
proof -
  have f: "findHeader precedence_data
             [''gastos'', ''gasto'', ''custo'', ''investimento'', ''spend'']
             = Some ''Custo Total''"
    by code_simp
  show ?thesis
    using findHeader_first_qualifying
      [of precedence_data "[''gastos'', ''gasto'', ''custo'', ''investimento'', ''spend'']"]
    unfolding colGastos_def f by simp
qed

subsection \<open>KPI aggregator\<close>

lemma roas_counts_iff:
  "roas_counts v \<longleftrightarrow> (\<exists>q. js_Number v = Fin q) \<and> v \<noteq> Some (Str [])"
  by (cases v; cases "js_Number v") (auto simp: roas_counts_def isNaN_def js_Number_def)

text \<open>The loop's four accumulators after a pass over the rows.\<close>

lemma stats_row_fold:
  "foldl (stats_row colF colG colR) (a, b, s, n) frows
     = (a + sum_list (map (\<lambda>r. or_zero (js_Number (r (or_empty colF)))) frows),
        b + sum_list (map (\<lambda>r. or_zero (js_Number (r (or_empty colG)))) frows),
        s + sum_list (roas_values (or_empty colR) frows),
        n + length (roas_values (or_empty colR) frows))"
proof (induction frows arbitrary: a b s n)
  case Nil
  then show ?case by (simp add: roas_values_def)
next
  case (Cons r frows)
  show ?case
  proof (cases "js_Number (r (or_empty colR))")
    case NaN
    then show ?thesis
      by (simp add: Cons.IH roas_values_def roas_counts_iff Let_def add.assoc)
  next
    case (Fin q)
    then show ?thesis
      by (simp add: Cons.IH roas_values_def roas_counts_iff Let_def add.assoc or_zero_def)
  qed
qed


text \<open>
  C8. On the example dataset, with no filter and no search term, the KPIs are
  revenue 1500, spend 300, tax 90, profit 1110 and average ROAS 5.
\<close>

theorem example_kpis:
  "kpis nts example_data initial_state
     = \<lparr>fat = 1500, gas = 300, imp = 90, luc = 1110, roas = 5\<rparr>"
  by code_simp

subsection \<open>Row filter\<close>

lemma set_Object_entries: "set (Object_entries obj) = set obj"
  by (auto simp: Object_entries_def)

text \<open>
  C7. After clear-all (no filter entries, empty search term) the row filter returns the
  dataset's rows unchanged.
\<close>

theorem clearAllFilters_shows_all_rows:
  "filteredRows nts data (clearAllFilters st) = rows data"
  by (simp add: filteredRows_def clearAllFilters_def matchesFilters_def matchesSearch_def
      Object_entries_def)

lemma matchesFilters_iff:
  "matchesFilters nts fs row \<longleftrightarrow>
     (\<forall>(col, vals) \<in> set fs. vals = [] \<or> js_String nts (row col) \<in> set vals)"
  by (auto simp: matchesFilters_def list_all_iff set_Object_entries)




subsection \<open>Toggling a filter value\<close>

lemma entries_update:
  assumes "set vs = set (selected fs c)"
  shows "(\<forall>(col, vals) \<in> set (AList.update c vs fs). vals = [] \<or> f col \<in> set vals)
     \<longleftrightarrow> (\<forall>(col, vals) \<in> set fs. vals = [] \<or> f col \<in> set vals)"
  using assms
proof (induction fs)
  case Nil
  then show ?case by (simp add: selected_def)
next
  case (Cons a fs)
  obtain k b where a: "a = (k, b)" by (cases a)
  show ?case
  proof (cases "k = c")
    case True
    with Cons.prems a have "set vs = set b" by (simp add: selected_def)
    then have "(vs = [] \<or> f c \<in> set vs) \<longleftrightarrow> (b = [] \<or> f c \<in> set b)"
      by (metis set_empty)
    with True a show ?thesis by simp
  next
    case False
    with Cons.prems a have "set vs = set (selected fs c)" by (simp add: selected_def)
    with Cons.IH False a show ?thesis by simp
  qed
qed

lemma toggled_twice: "set (toggled (toggled cur v) v) = set cur"
  by (auto simp: toggled_def)

lemma toggleFilter_filters:
  "filters (toggleFilter c v st)
     = AList.update c (toggled (selected (filters st) c) v) (filters st)"
  by (simp add: toggleFilter_def Let_def)

lemma selected_update: "selected (AList.update c u fs) c = u"
  by (simp add: selected_def update_conv')

text \<open>
  C10. Toggling the same column and value twice leaves the filtered rows as they were, for
  every dataset, filter state and search term. After the two toggles the column's entry
  holds the same values as before (as a set), or the empty list where the column had no
  entry, and an empty list constrains nothing.
\<close>

theorem toggleFilter_twice:
  "filteredRows nts data (toggleFilter c v (toggleFilter c v st)) = filteredRows nts data st"
proof -
  let ?vs = "toggled (toggled (selected (filters st) c) v) v"
  have f: "filters (toggleFilter c v (toggleFilter c v st)) = AList.update c ?vs (filters st)"
    by (simp add: toggleFilter_filters selected_update)
  have t: "searchTerm (toggleFilter c v (toggleFilter c v st)) = searchTerm st"
    by (simp add: toggleFilter_def Let_def)
  have "matchesFilters nts (AList.update c ?vs (filters st)) row
      = matchesFilters nts (filters st) row" for row
    unfolding matchesFilters_iff
    by (rule entries_update) (rule toggled_twice)
  then show ?thesis
    by (simp add: filteredRows_def f t)
qed

subsection \<open>Average ROAS\<close>






text \<open>
  C6. The empty string coerces to 0, not to \<open>NaN\<close>, so the \<^verbatim>\<open>isNaN\<close> test alone would
  let it through; yet a row whose ROAS field is the empty string leaves the sum and the
  count of the average (the last two accumulators) as they are without that row.
\<close>

theorem blank_roas_excluded:
  "js_Number (Some (Str [])) = Fin 0
   \<and> \<not> isNaN (js_Number (Some (Str [])))
   \<and> (row (or_empty colR) = Some (Str []) \<longrightarrow>
        snd (snd (foldl (stats_row colF colG colR) acc (xs @ row # ys)))
          = snd (snd (foldl (stats_row colF colG colR) acc (xs @ ys))))"
proof -
  have n: "js_Number (Some (Str [])) = Fin 0"
    by (simp add: js_Number_def StringToNumber_def trim_ws_def)
  have "roas_values (or_empty colR) (xs @ row # ys) = roas_values (or_empty colR) (xs @ ys)"
    if "row (or_empty colR) = Some (Str [])"
    using that by (simp add: roas_values_def roas_counts_def)
  then show ?thesis
    by (cases acc) (auto simp: n isNaN_def stats_row_fold)
qed

theorem blank_roas_excluded_witness:
  "blank_roas_row (or_empty (Some ''ROAS'')) = Some (Str [])
   \<and> snd (snd (foldl (stats_row (Some ''Faturamento'') (Some ''Gastos'') (Some ''ROAS''))
                  (0, 0, 0, 0) ([example_row1] @ blank_roas_row # [example_row2])))
       = (10, 2)"
proof -
  have b: "blank_roas_row (or_empty (Some ''ROAS'')) = Some (Str [])"
    by (simp add: blank_roas_row_def or_empty_def)
  have e: "snd (snd (foldl (stats_row (Some ''Faturamento'') (Some ''Gastos'') (Some ''ROAS''))
                  (0, 0, 0, 0) ([example_row1] @ [example_row2]))) = (10, 2)"
    by (simp add: example_row1_def example_row2_def or_empty_def or_zero_def js_Number_def)
  show ?thesis
    using blank_roas_excluded [of blank_roas_row "Some ''ROAS''" "Some ''Faturamento''"
        "Some ''Gastos''" "(0, 0, 0, 0)" "[example_row1]" "[example_row2]"] b e
    by simp
qed

subsection \<open>Chart aggregator\<close>
















subsection \<open>Filter panel values\<close>

lemma set_Set_from: "set (Set_from xs) = set xs"
  by (simp add: Set_from_def)

lemma distinct_Set_from: "distinct (Set_from xs)"
  by (simp add: Set_from_def)

lemma uniqueValues_set:
  "set (uniqueValues nts data col) = present_strings nts data col - {[]}"
proof -
  have 1: "set (uniqueValues nts data col)
      = {s. s \<noteq> [] \<and> (\<exists>r \<in> set (rows data). s = js_String nts (or_blank (r col)))}"
    by (auto simp: uniqueValues_def set_Set_from)
  have 2: "js_String nts (or_blank None) = []"
    by (simp add: or_blank_def js_String_def)
  have 3: "or_blank (Some v) = Some v" for v
    by (simp add: or_blank_def)
  show ?thesis
    unfolding 1
  proof (intro set_eqI iffI)
    fix s
    assume "s \<in> {s. s \<noteq> [] \<and> (\<exists>r \<in> set (rows data). s = js_String nts (or_blank (r col)))}"
    then obtain r where r: "s \<noteq> []" "r \<in> set (rows data)" "s = js_String nts (or_blank (r col))"
      by blast
    with 2 obtain v where "r col = Some v" by (cases "r col") auto
    with r 3 show "s \<in> present_strings nts data col - {[]}"
      by (auto simp: present_strings_def)
  next
    fix s
    assume "s \<in> present_strings nts data col - {[]}"
    then obtain r v where "s \<noteq> []" "r \<in> set (rows data)" "r col = Some v"
      "s = js_String nts (Some v)"
      by (auto simp: present_strings_def)
    then have "s \<noteq> [] \<and> r \<in> set (rows data) \<and> s = js_String nts (or_blank (r col))"
      by (simp add: 3)
    then show "s \<in> {s. s \<noteq> [] \<and> (\<exists>r \<in> set (rows data). s = js_String nts (or_blank (r col)))}"
      by blast
  qed
qed

lemma uniqueValues_sorted: "sorted (uniqueValues nts data col) \<and> distinct (uniqueValues nts data col)"
  by (simp add: uniqueValues_def distinct_Set_from)

lemma finite_present_strings: "finite (present_strings nts data col)"
proof -
  have "present_strings nts data col \<subseteq> (\<lambda>r. js_String nts (r col)) ` set (rows data)"
  proof
    fix s
    assume "s \<in> present_strings nts data col"
    then obtain r v where "r \<in> set (rows data)" "r col = Some v" "s = js_String nts (Some v)"
      by (auto simp: present_strings_def)
    then have "r \<in> set (rows data) \<and> s = js_String nts (r col)" by simp
    then show "s \<in> (\<lambda>r. js_String nts (r col)) ` set (rows data)" by blast
  qed
  then show ?thesis by (rule finite_subset) simp
qed

lemma uniqueValues_eq:
  "uniqueValues nts data col = sorted_list_of_set (present_strings nts data col - {[]})"
proof -
  have "finite (present_strings nts data col - {[]})"
    by (simp add: finite_present_strings)
  then show ?thesis
    using uniqueValues_set [of nts data col] uniqueValues_sorted [of nts data col]
    by (metis sorted_list_of_set.idem_if_sorted_distinct)
qed

lemma uniqueValuesMap_fold:
  "map_of (foldl (\<lambda>m col. AList.update col (f col) m) m0 cols) c
     = (if c \<in> set cols then Some (f c) else map_of m0 c)"
  by (induction cols arbitrary: m0) (auto simp: update_conv')

text \<open>
  C9, as the code has it. For every filterable column the offered list is the sorted,
  duplicate-free list of the stringified values of the rows that have the field, the empty
  string left out (strings compare case-sensitively, character code by character code).
\<close>

theorem uniqueValuesMap_offered:
  "col \<in> set (filterableColumns data) \<Longrightarrow>
     map_of (uniqueValuesMap nts data) col
       = Some (sorted_list_of_set (present_strings nts data col - {[]}))"
  by (simp add: uniqueValuesMap_def uniqueValuesMap_fold uniqueValues_eq)


theorem uniqueValuesMap_offered_witness:
  "''Status'' \<in> set (filterableColumns status_data)
   \<and> map_of (uniqueValuesMap (\<lambda>r. []) status_data) ''Status'' = Some [''ativo'', ''pausado'']
   \<and> sorted_list_of_set (present_strings (\<lambda>r. []) status_data ''Status'' - {[]})
       = [''ativo'', ''pausado'']"
proof -
  have f: "''Status'' \<in> set (filterableColumns status_data)" by code_simp
  have m: "map_of (uniqueValuesMap (\<lambda>r. []) status_data) ''Status''
      = Some [''ativo'', ''pausado'']"
    by code_simp
  show ?thesis
    using uniqueValuesMap_offered [OF f, of "\<lambda>r. []"] f m by simp
qed

text \<open>
  C9, as stated, fails: for the column \<^verbatim>\<open>Status\<close> of \<open>status_data\<close> the stringified row
  values include the empty string (the blank cell) and \<^verbatim>\<open>undefined\<close> (the row without the
  field); the offered list has neither.
\<close>

theorem uniqueValues_claim_counterexample:
  "''Status'' \<in> set (filterableColumns status_data)
   \<and> map_of (uniqueValuesMap (\<lambda>r. []) status_data) ''Status'' = Some [''ativo'', ''pausado'']
   \<and> uniqueValues_claim (\<lambda>r. []) status_data ''Status''
       = [[], ''ativo'', ''pausado'', ''undefined'']
   \<and> map_of (uniqueValuesMap (\<lambda>r. []) status_data) ''Status''
       \<noteq> Some (uniqueValues_claim (\<lambda>r. []) status_data ''Status'')"
proof -
  have f: "''Status'' \<in> set (filterableColumns status_data)" by code_simp
  have m: "map_of (uniqueValuesMap (\<lambda>r. []) status_data) ''Status''
      = Some [''ativo'', ''pausado'']"
    by code_simp
  have c: "uniqueValues_claim (\<lambda>r. []) status_data ''Status''
      = [[], ''ativo'', ''pausado'', ''undefined'']"
    by code_simp
  show ?thesis by (simp add: f m c)
qed


end
